theory Spec2Isabelle
  imports Main "HOL-Library.Sublist"
begin

section \<open>Request Baskets on a document store: the basket storage engine\<close>

text \<open>
  The development follows \<^verbatim>\<open>baskets_deta.go\<close> (the basket object and the registry kept in a
  document store) and \<^verbatim>\<open>handlers.go\<close> (the HTTP handlers in front of them).

  Go's \<^verbatim>\<open>int\<close> is read as a 64-bit signed integer. Values are HOL integers; where the code
  adds two caller-supplied integers the wrap-around is written out with \<open>go_int\<close>. The
  counter \<^verbatim>\<open>TotalCount\<close> moves by one per captured request, so no run brings it near the
  64-bit limit and its increment is written without the wrap. A runtime panic (a slice
  bound out of range, a capacity given to \<^verbatim>\<open>make\<close> that is negative or too large) is the
  value \<open>Inl Panic\<close>;
  the other constructors of \<open>error\<close> are the error values the code builds with
  \<^verbatim>\<open>fmt.Errorf\<close> or passes to \<^verbatim>\<open>http.Error\<close>. An allocation that the runtime cannot serve ends the program; it is
  the value \<open>Inl OutOfMemory\<close>.

  Names are the ones of the code. The parameters \<^verbatim>\<open>max\<close> and \<^verbatim>\<open>in\<close> are written \<open>max'\<close> and
  \<open>in'\<close>, since the plain names are taken in HOL.
\<close>

subsection \<open>Go integers, slices and strings\<close>

datatype error =
    Panic
  | OutOfMemory
  | TokenFailure
  | NameConflict string
  | ReservedName string
  | InvalidName
  | ReadError
  | BadJSON
  | CapacityNotPositive int
  | CapacityTooLarge int
  | InvalidURL
  | InvalidStatus int
  | InvalidTemplate
  | UnknownMethod string

definition go_int :: "int \<Rightarrow> int" where
  "go_int x = (x + 2 ^ 63) mod 2 ^ 64 - 2 ^ 63"

text \<open>
  The slice expression \<^verbatim>\<open>s[low:high]\<close>. Go checks \<^verbatim>\<open>0 <= low <= high <= cap(s)\<close>; both uses
  in the code are guarded so that \<^verbatim>\<open>high <= len(s)\<close>, and the bound is taken at the length.
\<close>

definition slice :: "'a list \<Rightarrow> int \<Rightarrow> int \<Rightarrow> error + 'a list" where
  "slice s low high =
     (if 0 \<le> low \<and> low \<le> high \<and> high \<le> int (length s)
      then Inr (take (nat high - nat low) (drop (nat low) s))
      else Inl Panic)"

text \<open>
  \<^verbatim>\<open>make([]T, 0, cap)\<close> with a capacity given by the caller, for elements of \<open>elem\<close> bytes
  (8 for a pointer, 16 for a string, on a 64-bit target). The runtime panics (\<^verbatim>\<open>cap out of
  range\<close>) when the capacity is negative or the slice would be larger than \<^verbatim>\<open>maxAlloc\<close>, which
  is \<open>2^48\<close> bytes; below that the allocation succeeds when the bytes are there, and the
  program dies of lack of memory when they are not. \<open>mem\<close> is the number of bytes the
  runtime can obtain for the allocation. Slices that grow with data the program already
  holds (\<^verbatim>\<open>append\<close>) are taken to fit.
\<close>

abbreviation maxAlloc :: int where "maxAlloc \<equiv> 2 ^ 48"

definition makeslice :: "int \<Rightarrow> int \<Rightarrow> int \<Rightarrow> error option" where
  "makeslice mem elem cap =
     (if cap < 0 \<or> elem * cap > maxAlloc then Some Panic
      else if elem * cap > mem then Some OutOfMemory
      else None)"

text \<open>\<^verbatim>\<open>strings.Contains(s, substr)\<close>: \<open>substr\<close> occurs in \<open>s\<close> as a contiguous run of bytes.\<close>

definition Contains :: "string \<Rightarrow> string \<Rightarrow> bool" where
  "Contains s substr = sublist substr s"

subsection \<open>Data model\<close>

text \<open>
  Modelled from the spec: the declarations of \<^verbatim>\<open>ResponseConfig\<close>, \<^verbatim>\<open>RequestData\<close>,
  \<^verbatim>\<open>BasketConfig\<close> and of the page types are not among the source files; the fields are the
  ones the spec's data model lists and the code under study reads and writes. The header
  multimap of a request snapshot is kept as the serialized header block, the form the
  search reads.
\<close>

record ResponseConfig =
  Status :: int
  Headers :: "(string \<times> string list) list"
  Body :: string
  IsTemplate :: bool

record RequestData =
  Date :: int
  Header :: string
  ContentLength :: int
  Body :: string
  Method :: string
  Path :: string
  Query :: string

record BasketConfig =
  ForwardURL :: string
  ProxyResponse :: bool
  ExpandPath :: bool
  InsecureTLS :: bool
  Capacity :: int

record RequestsPage =
  Requests :: "RequestData list"
  Count :: int
  TotalCount :: int
  HasMore :: bool

record RequestsQueryPage =
  Requests :: "RequestData list"
  HasMore :: bool

record BasketNamesQueryPage =
  Names :: "string list"
  HasMore :: bool

record BasketAuth =
  Token :: string

text \<open>
  The basket object \<^verbatim>\<open>detaBasket\<close>. The same fields, under the same JSON keys, make up the
  document \<^verbatim>\<open>basketData\<close> that the store keeps for the basket, so one record serves for
  both. The mutex is left out: every operation below runs alone.
\<close>

record detaBasket =
  Key :: string
  Token :: string
  BConfig :: BasketConfig
  Requests :: "RequestData list"
  TotalCount :: int
  Responses :: "string \<rightharpoonup> ResponseConfig"

subsection \<open>The document store\<close>

text \<open>
  The client \<^verbatim>\<open>base.Base\<close> belongs to an external library. It is modelled by the documents it
  holds, in the order the store lists them, and by the calls the code makes: \<^verbatim>\<open>Insert\<close>
  fails when the key is taken, \<^verbatim>\<open>Get\<close> finds a document by key, \<^verbatim>\<open>Delete\<close> removes it, and
  \<^verbatim>\<open>Update\<close> applies a list of field updates to the document with the key (and does nothing
  when there is none; the code ignores the error).
\<close>

type_synonym Base = "detaBasket list"

datatype update =
    Set_requests "RequestData list"
  | Set_config BasketConfig
  | Set_response string ResponseConfig
  | Prepend_requests RequestData
  | Increment_totalCount int

fun apply_update :: "update \<Rightarrow> detaBasket \<Rightarrow> detaBasket" where
  "apply_update (Set_requests rs) d = d\<lparr>Requests := rs\<rparr>"
| "apply_update (Set_config c) d = d\<lparr>BConfig := c\<rparr>"
| "apply_update (Set_response m r) d = d\<lparr>Responses := (Responses d)(m \<mapsto> r)\<rparr>"
| "apply_update (Prepend_requests r) d = d\<lparr>Requests := r # Requests d\<rparr>"
| "apply_update (Increment_totalCount n) d = d\<lparr>TotalCount := TotalCount d + n\<rparr>"

definition base_Update :: "Base \<Rightarrow> string \<Rightarrow> update list \<Rightarrow> Base" where
  "base_Update store key us =
     map (\<lambda>d. if Key d = key then fold apply_update us d else d) store"

definition base_Get :: "Base \<Rightarrow> string \<Rightarrow> detaBasket option" where
  "base_Get store key = find (\<lambda>d. Key d = key) store"

definition base_Insert :: "Base \<Rightarrow> detaBasket \<Rightarrow> Base option" where
  "base_Insert store d = (if base_Get store (Key d) = None then Some (store @ [d]) else None)"

definition base_Delete :: "Base \<Rightarrow> string \<Rightarrow> Base" where
  "base_Delete store key = filter (\<lambda>d. Key d \<noteq> key) store"

subsection \<open>Basket operations\<close>

definition applyLimit :: "Base \<Rightarrow> detaBasket \<Rightarrow> error + (Base \<times> detaBasket)" where
  "applyLimit store basket =
     (if int (length (Requests basket)) > Capacity (BConfig basket) then
        (case slice (Requests basket) 0 (Capacity (BConfig basket)) of
           Inl e \<Rightarrow> Inl e
         | Inr rs \<Rightarrow>
             Inr (base_Update store (Key basket) [Set_requests rs], basket\<lparr>Requests := rs\<rparr>))
      else Inr (store, basket))"

definition Config :: "detaBasket \<Rightarrow> BasketConfig" where
  "Config basket = BConfig basket"

definition Update :: "Base \<Rightarrow> detaBasket \<Rightarrow> BasketConfig \<Rightarrow> error + (Base \<times> detaBasket)" where
  "Update store basket config =
     (case applyLimit store (basket\<lparr>BConfig := config\<rparr>) of
        Inl e \<Rightarrow> Inl e
      | Inr (store', basket') \<Rightarrow>
          Inr (base_Update store' (Key basket') [Set_config config], basket'))"

text \<open>
  \<^verbatim>\<open>Add\<close> builds the snapshot with \<^verbatim>\<open>ToRequestData\<close>, a function of the repository outside the
  source files at hand; it is a parameter here.
\<close>

definition Add ::
  "('r \<Rightarrow> RequestData) \<Rightarrow> Base \<Rightarrow> detaBasket \<Rightarrow> 'r \<Rightarrow> error + (Base \<times> detaBasket \<times> RequestData)"
where
  "Add ToRequestData store basket req =
     (let data = ToRequestData req;
          basket1 = basket\<lparr>Requests := data # Requests basket\<rparr>;
          basket2 = basket1\<lparr>TotalCount := TotalCount basket1 + 1\<rparr>
      in case applyLimit store basket2 of
           Inl e \<Rightarrow> Inl e
         | Inr (store', basket3) \<Rightarrow>
             Inr (base_Update store' (Key basket3)
                    [Prepend_requests data, Increment_totalCount 1],
                  basket3, data))"

text \<open>Sequential calls of \<^verbatim>\<open>Add\<close> on one basket object, oldest request first.\<close>

fun Add_all ::
  "('r \<Rightarrow> RequestData) \<Rightarrow> Base \<Rightarrow> detaBasket \<Rightarrow> 'r list \<Rightarrow> error + (Base \<times> detaBasket)"
where
  "Add_all ToRequestData store basket [] = Inr (store, basket)"
| "Add_all ToRequestData store basket (req # reqs) =
     (case Add ToRequestData store basket req of
        Inl e \<Rightarrow> Inl e
      | Inr (store', basket', data) \<Rightarrow> Add_all ToRequestData store' basket' reqs)"

definition Clear :: "int \<Rightarrow> Base \<Rightarrow> detaBasket \<Rightarrow> error + (Base \<times> detaBasket)" where
  "Clear mem store basket =
     (case makeslice mem 8 (Capacity (BConfig basket)) of
        Some e \<Rightarrow> Inl e
      | None \<Rightarrow>
          Inr (base_Update store (Key basket) [Set_requests []], basket\<lparr>Requests := []\<rparr>))"

definition Size :: "detaBasket \<Rightarrow> int" where
  "Size basket = int (length (Requests basket))"

definition GetRequests :: "detaBasket \<Rightarrow> int \<Rightarrow> int \<Rightarrow> error + RequestsPage" where
  "GetRequests basket max' skip =
     (let size = Size basket;
          last = go_int (skip + max');
          requestsPage = \<lparr>RequestsPage.Requests = [], Count = size,
                          TotalCount = detaBasket.TotalCount basket, HasMore = last < size\<rparr>
      in if skip < size then
           (let last' = (if last > size then size else last)
            in case slice (detaBasket.Requests basket) skip last' of
                 Inl e \<Rightarrow> Inl e
               | Inr rs \<Rightarrow> Inr (requestsPage\<lparr>RequestsPage.Requests := rs\<rparr>))
         else Inr requestsPage)"

text \<open>
  Modelled from the spec: the method \<^verbatim>\<open>RequestData.Matches\<close> is declared outside the source
  files at hand. A snapshot matches when the query is a case-sensitive substring of the raw
  body (\<^verbatim>\<open>"body"\<close>), of the serialized header block (\<^verbatim>\<open>"headers"\<close>), of the raw query string
  (\<^verbatim>\<open>"query"\<close>), or of any of the three (\<^verbatim>\<open>"any"\<close> or an unrecognized selector).
\<close>

definition Matches :: "RequestData \<Rightarrow> string \<Rightarrow> string \<Rightarrow> bool" where
  "Matches req query in' =
     (if in' = ''body'' then Contains (RequestData.Body req) query
      else if in' = ''headers'' then Contains (Header req) query
      else if in' = ''query'' then Contains (Query req) query
      else Contains (RequestData.Body req) query \<or> Contains (Header req) query \<or>
           Contains (Query req) query)"

text \<open>
  The loop of \<^verbatim>\<open>FindRequests\<close>: \<open>n\<close> is \<^verbatim>\<open>len(basket.Requests)\<close>, \<open>index\<close> the position of the
  head of the remaining list, \<open>result\<close> and \<open>skipped\<close> the two loop variables.
\<close>

fun FindRequests_loop ::
  "string \<Rightarrow> string \<Rightarrow> int \<Rightarrow> int \<Rightarrow> int \<Rightarrow> int \<Rightarrow> RequestData list \<Rightarrow> RequestData list \<Rightarrow> int
     \<Rightarrow> RequestsQueryPage"
where
  "FindRequests_loop query in' max' skip n index [] result skipped =
     \<lparr>RequestsQueryPage.Requests = result, HasMore = False\<rparr>"
| "FindRequests_loop query in' max' skip n index (request # rest) result skipped =
     (let result1 = (if Matches request query in' \<and> \<not> skipped < skip
                     then result @ [request] else result);
          skipped1 = (if Matches request query in' \<and> skipped < skip
                      then skipped + 1 else skipped)
      in if int (length result1) = max'
         then \<lparr>RequestsQueryPage.Requests = result1, HasMore = index < n - 1\<rparr>
         else FindRequests_loop query in' max' skip n (index + 1) rest result1 skipped1)"

definition FindRequests ::
  "int \<Rightarrow> detaBasket \<Rightarrow> string \<Rightarrow> string \<Rightarrow> int \<Rightarrow> int \<Rightarrow> error + RequestsQueryPage"
where
  "FindRequests mem basket query in' max' skip =
     (case makeslice mem 8 max' of
        Some e \<Rightarrow> Inl e
      | None \<Rightarrow>
          Inr (FindRequests_loop query in' max' skip (int (length (Requests basket))) 0
                 (Requests basket) [] 0))"

definition GetResponse :: "detaBasket \<Rightarrow> string \<Rightarrow> ResponseConfig option" where
  "GetResponse basket method = Responses basket method"

definition SetResponse :: "Base \<Rightarrow> detaBasket \<Rightarrow> string \<Rightarrow> ResponseConfig \<Rightarrow> Base \<times> detaBasket" where
  "SetResponse store basket method response =
     (base_Update store (Key basket) [Set_response method response],
      basket\<lparr>Responses := (Responses basket)(method \<mapsto> response)\<rparr>)"

subsection \<open>The registry\<close>

text \<open>
  What the code obtains from outside the repository is gathered in one record: the JSON
  decoder applied to a body and the value it decodes into (\<open>None\<close> when \<^verbatim>\<open>json.Unmarshal\<close>
  returns an error), whether \<^verbatim>\<open>url.ParseRequestURI\<close> and \<^verbatim>\<open>template.Parse\<close> accept a string,
  \<^verbatim>\<open>strings.ToUpper\<close>, the outcome of \<^verbatim>\<open>GenerateToken\<close> (\<open>None\<close> when it fails), and the
  memory the runtime can obtain while the request is handled.
\<close>

record externals =
  Unmarshal_config :: "string \<Rightarrow> BasketConfig \<Rightarrow> BasketConfig option"
  Unmarshal_response :: "string \<Rightarrow> ResponseConfig \<Rightarrow> ResponseConfig option"
  ParseRequestURI :: "string \<Rightarrow> bool"
  template_Parse :: "string \<Rightarrow> bool"
  ToUpper :: "string \<Rightarrow> string"
  GenerateToken :: "string option"
  memory :: int

record detaDatabase =
  base :: Base
  keys :: "string list option"

definition Create ::
  "externals \<Rightarrow> detaDatabase \<Rightarrow> string \<Rightarrow> BasketConfig
     \<Rightarrow> error + (detaDatabase \<times> (error + BasketAuth))"
where
  "Create ext db name config =
     (case GenerateToken ext of
        None \<Rightarrow> Inr (db, Inl TokenFailure)
      | Some token \<Rightarrow>
          (case makeslice (memory ext) 8 (Capacity config) of
             Some e \<Rightarrow> Inl e
           | None \<Rightarrow>
               (case base_Insert (base db)
                       \<lparr>Key = name, Token = token, BConfig = config, Requests = [],
                        TotalCount = 0, Responses = Map.empty\<rparr> of
                  None \<Rightarrow> Inr (db, Inl (NameConflict name))
                | Some store' \<Rightarrow>
                    Inr (db\<lparr>base := store'\<rparr>, Inr \<lparr>BasketAuth.Token = token\<rparr>))))"

definition Get :: "detaDatabase \<Rightarrow> string \<Rightarrow> detaBasket option" where
  "Get db name = base_Get (base db) name"

definition Delete :: "detaDatabase \<Rightarrow> string \<Rightarrow> detaDatabase" where
  "Delete db name = db\<lparr>base := base_Delete (base db) name\<rparr>"

definition FindNames ::
  "int \<Rightarrow> detaDatabase \<Rightarrow> string \<Rightarrow> int \<Rightarrow> int \<Rightarrow> error + BasketNamesQueryPage"
where
  "FindNames mem db query max' skip =
     (case makeslice mem 16 max' of
        Some e \<Rightarrow> Inl e
      | None \<Rightarrow> Inr \<lparr>Names = [], BasketNamesQueryPage.HasMore = False\<rparr>)"

subsection \<open>Server configuration and the HTTP handlers\<close>

text \<open>
  The two steps of \<^verbatim>\<open>AcceptBasketRequests\<close> that reach the basket, for a request whose path
  names the basket \<open>name\<close>: the registry hands out the basket stored under the name and
  \<^verbatim>\<open>Add\<close> records the request; an unknown name changes nothing. Forwarding and the reply
  are left out. \<open>AcceptBasketRequests_all\<close> handles one request after the other.
\<close>

definition AcceptBasketRequests ::
  "('r \<Rightarrow> RequestData) \<Rightarrow> detaDatabase \<Rightarrow> string \<Rightarrow> 'r \<Rightarrow> error + detaDatabase"
where
  "AcceptBasketRequests ToRequestData basketsDb name r =
     (case Get basketsDb name of
        Some basket \<Rightarrow>
          (case Add ToRequestData (base basketsDb) basket r of
             Inl e \<Rightarrow> Inl e
           | Inr (store', basket', request) \<Rightarrow> Inr (basketsDb\<lparr>base := store'\<rparr>))
      | None \<Rightarrow> Inr basketsDb)"

fun AcceptBasketRequests_all ::
  "('r \<Rightarrow> RequestData) \<Rightarrow> detaDatabase \<Rightarrow> string \<Rightarrow> 'r list \<Rightarrow> error + detaDatabase"
where
  "AcceptBasketRequests_all ToRequestData basketsDb name [] = Inr basketsDb"
| "AcceptBasketRequests_all ToRequestData basketsDb name (r # rs) =
     (case AcceptBasketRequests ToRequestData basketsDb name r of
        Inl e \<Rightarrow> Inl e
      | Inr db' \<Rightarrow> AcceptBasketRequests_all ToRequestData db' name rs)"


record ServerConfig =
  ServerPort :: int
  ServerAddr :: string
  InitCapacity :: int
  MaxCapacity :: int
  PageSize :: int
  MasterToken :: string
  DbType :: string
  DbFile :: string
  DbConnection :: string
  Baskets :: "string list"
  PathPrefix :: string
  Mode :: string

abbreviation ModePublic :: string where "ModePublic \<equiv> ''public''"
abbreviation ModeRestricted :: string where "ModeRestricted \<equiv> ''restricted''"
abbreviation serviceOldAPIPath :: string where "serviceOldAPIPath \<equiv> ''baskets''"
abbreviation serviceAPIPath :: string where "serviceAPIPath \<equiv> ''api''"
abbreviation serviceUIPath :: string where "serviceUIPath \<equiv> ''web''"

abbreviation StatusOK :: int where "StatusOK \<equiv> 200"
abbreviation StatusCreated :: int where "StatusCreated \<equiv> 201"
abbreviation StatusNoContent :: int where "StatusNoContent \<equiv> 204"
abbreviation StatusNotModified :: int where "StatusNotModified \<equiv> 304"
abbreviation StatusBadRequest :: int where "StatusBadRequest \<equiv> 400"
abbreviation StatusUnauthorized :: int where "StatusUnauthorized \<equiv> 401"
abbreviation StatusForbidden :: int where "StatusForbidden \<equiv> 403"
abbreviation StatusNotFound :: int where "StatusNotFound \<equiv> 404"
abbreviation StatusConflict :: int where "StatusConflict \<equiv> 409"
abbreviation StatusUnprocessableEntity :: int where "StatusUnprocessableEntity \<equiv> 422"
abbreviation StatusInternalServerError :: int where "StatusInternalServerError \<equiv> 500"

abbreviation MethodGet :: string where "MethodGet \<equiv> ''GET''"
abbreviation MethodHead :: string where "MethodHead \<equiv> ''HEAD''"
abbreviation MethodPost :: string where "MethodPost \<equiv> ''POST''"
abbreviation MethodPut :: string where "MethodPut \<equiv> ''PUT''"
abbreviation MethodPatch :: string where "MethodPatch \<equiv> ''PATCH''"
abbreviation MethodDelete :: string where "MethodDelete \<equiv> ''DELETE''"
abbreviation MethodConnect :: string where "MethodConnect \<equiv> ''CONNECT''"
abbreviation MethodOptions :: string where "MethodOptions \<equiv> ''OPTIONS''"
abbreviation MethodTrace :: string where "MethodTrace \<equiv> ''TRACE''"

text \<open>
  An incoming request, as far as the handlers read it: the router parameters \<^verbatim>\<open>basket\<close> and
  \<^verbatim>\<open>method\<close>, the \<^verbatim>\<open>Authorization\<close> header and the body (\<open>None\<close> when reading it fails).
  A reply is the status written and what the body carries.
\<close>

record request =
  param_basket :: string
  param_method :: string
  header_Authorization :: string
  req_body :: "string option"

datatype content =
    NoBody
  | ErrorText error
  | AuthJSON BasketAuth
  | ConfigJSON BasketConfig
  | ResponseJSON ResponseConfig

record reply =
  status :: int
  body :: content

text \<open>\<^verbatim>\<open>ioutil.ReadAll(io.LimitReader(r.Body, limit))\<close>\<close>

definition read_body :: "nat \<Rightarrow> request \<Rightarrow> string option" where
  "read_body limit r = map_option (take limit) (req_body r)"

text \<open>
  \<^verbatim>\<open>validBasketName.MatchString\<close> for the pattern \<^verbatim>\<open>^[\w\d\-_\.]{1,250}$\<close>: between 1 and 250
  characters, each an ASCII letter, a digit, an underscore, a hyphen or a dot; without the
  multi-line flag \<^verbatim>\<open>$\<close> is the end of the text.
\<close>

definition basketNameChars :: "char set" where
  "basketNameChars =
     set ''abcdefghijklmnopqrstuvwxyzABCDEFGHIJKLMNOPQRSTUVWXYZ0123456789_-.''"

definition validBasketName :: "string \<Rightarrow> bool" where
  "validBasketName name =
     (1 \<le> length name \<and> length name \<le> 250 \<and> (\<forall>c \<in> set name. c \<in> basketNameChars))"

definition defaultResponse :: ResponseConfig where
  "defaultResponse = \<lparr>Status = StatusOK, Headers = [], ResponseConfig.Body = [], IsTemplate = False\<rparr>"

definition getAuthorizedBasket :: "detaDatabase \<Rightarrow> request \<Rightarrow> reply + (string \<times> detaBasket)" where
  "getAuthorizedBasket basketsDb r =
     (let name = param_basket r
      in if \<not> validBasketName name
         then Inl \<lparr>status = StatusBadRequest, body = ErrorText InvalidName\<rparr>
         else (case Get basketsDb name of
                 Some basket \<Rightarrow> Inr (name, basket)
               | None \<Rightarrow> Inl \<lparr>status = StatusNotFound, body = NoBody\<rparr>))"

definition authorizeRequest :: "request \<Rightarrow> bool \<Rightarrow> ServerConfig \<Rightarrow> bool" where
  "authorizeRequest r publicAPI config = True"

definition validateBasketConfig :: "externals \<Rightarrow> ServerConfig \<Rightarrow> BasketConfig \<Rightarrow> error option" where
  "validateBasketConfig ext serverConfig config =
     (if Capacity config < 1 then Some (CapacityNotPositive (Capacity config))
      else if Capacity config > MaxCapacity serverConfig
      then Some (CapacityTooLarge (MaxCapacity serverConfig))
      else if length (ForwardURL config) > 0 \<and> \<not> ParseRequestURI ext (ForwardURL config)
      then Some InvalidURL
      else None)"

definition validateResponseConfig :: "externals \<Rightarrow> ResponseConfig \<Rightarrow> error option" where
  "validateResponseConfig ext config =
     (if Status config < 100 \<or> Status config \<ge> 600 then Some (InvalidStatus (Status config))
      else if IsTemplate config \<and> length (ResponseConfig.Body config) > 0 \<and>
              \<not> template_Parse ext (ResponseConfig.Body config)
      then Some InvalidTemplate
      else None)"

definition getValidMethod :: "externals \<Rightarrow> request \<Rightarrow> string \<times> error option" where
  "getValidMethod ext r =
     (let method = ToUpper ext (param_method r)
      in if method \<in> set [MethodGet, MethodHead, MethodPost, MethodPut, MethodPatch,
                            MethodDelete, MethodConnect, MethodOptions, MethodTrace]
         then (method, None)
         else (method, Some (UnknownMethod method)))"

definition CreateBasket ::
  "externals \<Rightarrow> ServerConfig \<Rightarrow> detaDatabase \<Rightarrow> request \<Rightarrow> error + (detaDatabase \<times> reply)"
where
  "CreateBasket ext serverConfig basketsDb r =
     (if \<not> authorizeRequest r True serverConfig
      then Inr (basketsDb, \<lparr>status = StatusOK, body = NoBody\<rparr>)
      else
        let name = param_basket r
        in if name = serviceOldAPIPath \<or> name = serviceAPIPath \<or> name = serviceUIPath
           then Inr (basketsDb, \<lparr>status = StatusForbidden, body = ErrorText (ReservedName name)\<rparr>)
           else if \<not> validBasketName name
           then Inr (basketsDb, \<lparr>status = StatusBadRequest, body = ErrorText InvalidName\<rparr>)
           else
             (case read_body 2048 r of
                None \<Rightarrow>
                  Inr (basketsDb, \<lparr>status = StatusInternalServerError, body = ErrorText ReadError\<rparr>)
              | Some bytes \<Rightarrow>
                  (let config = \<lparr>ForwardURL = [], ProxyResponse = False, ExpandPath = False,
                                 InsecureTLS = False, Capacity = InitCapacity serverConfig\<rparr>;
                       decoded =
                         (if length bytes > 0 then
                            (case Unmarshal_config ext bytes config of
                               None \<Rightarrow> Inl \<lparr>status = StatusBadRequest, body = ErrorText BadJSON\<rparr>
                             | Some config' \<Rightarrow>
                                 (case validateBasketConfig ext serverConfig config' of
                                    Some e \<Rightarrow>
                                      Inl \<lparr>status = StatusUnprocessableEntity, body = ErrorText e\<rparr>
                                  | None \<Rightarrow> Inr config'))
                          else Inr config)
                   in case decoded of
                        Inl rep \<Rightarrow> Inr (basketsDb, rep)
                      | Inr config' \<Rightarrow>
                          (case Create ext basketsDb name config' of
                             Inl e \<Rightarrow> Inl e
                           | Inr (db', Inl e) \<Rightarrow>
                               Inr (db', \<lparr>status = StatusConflict, body = ErrorText e\<rparr>)
                           | Inr (db', Inr auth) \<Rightarrow>
                               Inr (db', \<lparr>status = StatusCreated, body = AuthJSON auth\<rparr>)))))"

definition UpdateBasket ::
  "externals \<Rightarrow> ServerConfig \<Rightarrow> detaDatabase \<Rightarrow> request \<Rightarrow> error + (detaDatabase \<times> reply)"
where
  "UpdateBasket ext serverConfig basketsDb r =
     (case getAuthorizedBasket basketsDb r of
        Inl rep \<Rightarrow> Inr (basketsDb, rep)
      | Inr (name, basket) \<Rightarrow>
          (case read_body 2048 r of
             None \<Rightarrow>
               Inr (basketsDb, \<lparr>status = StatusInternalServerError, body = ErrorText ReadError\<rparr>)
           | Some bytes \<Rightarrow>
               if length bytes > 0 then
                 (case Unmarshal_config ext bytes (Config basket) of
                    None \<Rightarrow> Inr (basketsDb, \<lparr>status = StatusBadRequest, body = ErrorText BadJSON\<rparr>)
                  | Some config \<Rightarrow>
                      (case validateBasketConfig ext serverConfig config of
                         Some e \<Rightarrow>
                           Inr (basketsDb,
                                \<lparr>status = StatusUnprocessableEntity, body = ErrorText e\<rparr>)
                       | None \<Rightarrow>
                           (case Update (base basketsDb) basket config of
                              Inl e \<Rightarrow> Inl e
                            | Inr (store', basket') \<Rightarrow>
                                Inr (basketsDb\<lparr>base := store'\<rparr>,
                                     \<lparr>status = StatusNoContent, body = NoBody\<rparr>))))
               else Inr (basketsDb, \<lparr>status = StatusNotModified, body = NoBody\<rparr>)))"

definition GetBasketResponse ::
  "externals \<Rightarrow> ServerConfig \<Rightarrow> detaDatabase \<Rightarrow> request \<Rightarrow> error + (detaDatabase \<times> reply)"
where
  "GetBasketResponse ext serverConfig basketsDb r =
     (case getAuthorizedBasket basketsDb r of
        Inl rep \<Rightarrow> Inr (basketsDb, rep)
      | Inr (name, basket) \<Rightarrow>
          (case getValidMethod ext r of
             (method, Some errm) \<Rightarrow>
               Inr (basketsDb, \<lparr>status = StatusBadRequest, body = ErrorText errm\<rparr>)
           | (method, None) \<Rightarrow>
               (let response = (case GetResponse basket method of
                                  None \<Rightarrow> defaultResponse
                                | Some response \<Rightarrow> response)
                in Inr (basketsDb, \<lparr>status = StatusOK, body = ResponseJSON response\<rparr>))))"

definition UpdateBasketResponse ::
  "externals \<Rightarrow> ServerConfig \<Rightarrow> detaDatabase \<Rightarrow> request \<Rightarrow> error + (detaDatabase \<times> reply)"
where
  "UpdateBasketResponse ext serverConfig basketsDb r =
     (case getAuthorizedBasket basketsDb r of
        Inl rep \<Rightarrow> Inr (basketsDb, rep)
      | Inr (name, basket) \<Rightarrow>
          (case getValidMethod ext r of
             (method, Some errm) \<Rightarrow>
               Inr (basketsDb, \<lparr>status = StatusBadRequest, body = ErrorText errm\<rparr>)
           | (method, None) \<Rightarrow>
               (case read_body (64 * 1024) r of
                  None \<Rightarrow>
                    Inr (basketsDb,
                         \<lparr>status = StatusInternalServerError, body = ErrorText ReadError\<rparr>)
                | Some bytes \<Rightarrow>
                    if length bytes > 0 then
                      (case Unmarshal_response ext bytes
                              \<lparr>Status = Status defaultResponse, Headers = [],
                               ResponseConfig.Body = [], IsTemplate = False\<rparr> of
                         None \<Rightarrow>
                           Inr (basketsDb, \<lparr>status = StatusBadRequest, body = ErrorText BadJSON\<rparr>)
                       | Some response \<Rightarrow>
                           (case validateResponseConfig ext response of
                              Some e \<Rightarrow>
                                Inr (basketsDb,
                                     \<lparr>status = StatusUnprocessableEntity, body = ErrorText e\<rparr>)
                            | None \<Rightarrow>
                                (case SetResponse (base basketsDb) basket method response of
                                   (store', basket') \<Rightarrow>
                                     Inr (basketsDb\<lparr>base := store'\<rparr>,
                                          \<lparr>status = StatusNoContent, body = NoBody\<rparr>))))
                    else Inr (basketsDb, \<lparr>status = StatusNotModified, body = NoBody\<rparr>))))"

text \<open>
  The nine standard method tokens, and the registry state in which every stored basket has
  response configurations under these tokens only.
\<close>

definition standard_methods :: "string set" where
  "standard_methods =
     {''GET'', ''HEAD'', ''POST'', ''PUT'', ''PATCH'', ''DELETE'', ''CONNECT'', ''OPTIONS'', ''TRACE''}"

definition response_keys_standard :: "detaDatabase \<Rightarrow> bool" where
  "response_keys_standard db = (\<forall>d \<in> set (base db). dom (Responses d) \<subseteq> standard_methods)"

subsection \<open>Concrete values for the examples\<close>

text \<open>
  A basket as \<^verbatim>\<open>Create\<close> stores it, a configuration that only sets the capacity, and a
  snapshot that only carries a body.
\<close>

definition new_basket :: "string \<Rightarrow> string \<Rightarrow> BasketConfig \<Rightarrow> detaBasket" where
  "new_basket name token config =
     \<lparr>Key = name, Token = token, BConfig = config, Requests = [], TotalCount = 0,
      Responses = Map.empty\<rparr>"

definition sample_config :: "int \<Rightarrow> BasketConfig" where
  "sample_config c =
     \<lparr>ForwardURL = [], ProxyResponse = False, ExpandPath = False, InsecureTLS = False,
      Capacity = c\<rparr>"

definition sample_request :: "string \<Rightarrow> RequestData" where
  "sample_request b =
     \<lparr>Date = 0, Header = [], ContentLength = int (length b), RequestData.Body = b,
      Method = ''POST'', Path = ''/demo'', Query = []\<rparr>"

definition sample_basket :: detaBasket where
  "sample_basket =
     \<lparr>Key = ''test1'', Token = ''t'', BConfig = sample_config 2,
      Requests = [sample_request ''r3'', sample_request ''r2''], TotalCount = 3,
      Responses = [''POST'' \<mapsto> \<lparr>Status = 201, Headers = [],
                                ResponseConfig.Body = ''ok'', IsTemplate = False\<rparr>]\<rparr>"

text \<open>
  Stand-ins for what comes from outside the repository: \<^verbatim>\<open>strings.ToUpper\<close> on ASCII
  letters, a decoder that knows a few bodies, a URL check, a template check, a token and
  one gibibyte of memory.
  Then a server configuration in a given mode, a registry with one basket, and a request.
\<close>

definition ToUpper_ascii :: "string \<Rightarrow> string" where
  "ToUpper_ascii s =
     map (\<lambda>c. case map_of (zip ''abcdefghijklmnopqrstuvwxyz'' ''ABCDEFGHIJKLMNOPQRSTUVWXYZ'') c of
                 Some u \<Rightarrow> u | None \<Rightarrow> c) s"

definition sample_externals :: externals where
  "sample_externals =
     \<lparr>Unmarshal_config = (\<lambda>bytes config.
          if bytes = ''{capacity:0}'' then Some (config\<lparr>Capacity := 0\<rparr>)
          else if bytes = ''{capacity:5}'' then Some (config\<lparr>Capacity := 5\<rparr>)
          else None),
      Unmarshal_response = (\<lambda>bytes response.
          if bytes = ''{status:99}'' then Some (response\<lparr>Status := 99\<rparr>)
          else if bytes = ''{status:201}'' then Some (response\<lparr>Status := 201\<rparr>)
          else None),
      ParseRequestURI = (\<lambda>u. prefix ''http://'' u),
      template_Parse = (\<lambda>t. \<not> Contains t ''{{''),
      ToUpper = ToUpper_ascii,
      GenerateToken = Some ''m3dYcCkbJxEHGVnQ7ZpLqWtRs5uA9oF2hTiz'',
      memory = 2 ^ 30\<rparr>"

definition sample_server :: "string \<Rightarrow> ServerConfig" where
  "sample_server mode =
     \<lparr>ServerPort = 55555, ServerAddr = ''127.0.0.1'', InitCapacity = 200, MaxCapacity = 2000,
      PageSize = 20, MasterToken = ''master'', DbType = ''deta'', DbFile = ''./baskets.db'',
      DbConnection = [], Baskets = [], PathPrefix = [], Mode = mode\<rparr>"

definition sample_db :: detaDatabase where
  "sample_db = \<lparr>base = [sample_basket], keys = None\<rparr>"

definition sample_http :: "string \<Rightarrow> string \<Rightarrow> string \<Rightarrow> request" where
  "sample_http name method bytes =
     \<lparr>param_basket = name, param_method = method, header_Authorization = [],
      req_body = Some bytes\<rparr>"

section \<open>Properties\<close>

subsection \<open>Capacity: \<^verbatim>\<open>applyLimit\<close> and \<^verbatim>\<open>Add\<close>\<close>

text \<open>
  A basket enters the registry through \<^verbatim>\<open>Create\<close>: it is then found under its name, holds no
  request, has counter 0, and its capacity is not negative (a negative one makes the
  allocation of the request list panic).
\<close>

lemma base_Get_append_new:
  assumes "base_Get store key = None" and "Key d = key"
  shows "base_Get (store @ [d]) key = Some d"
  using assms by (induction store) (auto simp: base_Get_def)

lemma Create_fresh:
  assumes "Create ext db name config = Inr (db', Inr auth)"
  shows "Get db' name =
           Some \<lparr>Key = name, Token = BasketAuth.Token auth, BConfig = config, Requests = [],
                 TotalCount = 0, Responses = Map.empty\<rparr> \<and>
         0 \<le> Capacity config"
  using assms
  by (auto simp: Create_def Get_def base_Insert_def base_Get_append_new makeslice_def
      split: option.splits if_splits)

lemma applyLimit_ok:
  assumes "0 \<le> Capacity (BConfig b)"
  shows "\<exists>store'. applyLimit store b =
           Inr (store', b\<lparr>Requests := take (nat (Capacity (BConfig b))) (Requests b)\<rparr>)"
  using assms by (auto simp: applyLimit_def slice_def)

lemma Add_ok:
  assumes "0 \<le> Capacity (BConfig b)"
  shows "\<exists>store'. Add T store b r =
           Inr (store',
                b\<lparr>Requests := take (nat (Capacity (BConfig b))) (T r # Requests b),
                  TotalCount := TotalCount b + 1\<rparr>,
                T r)"
proof -
  let ?b2 = "b\<lparr>Requests := T r # Requests b, TotalCount := TotalCount b + 1\<rparr>"
  have "0 \<le> Capacity (BConfig ?b2)" using assms by simp
  from applyLimit_ok[OF this, of store] obtain store' where
    "applyLimit store ?b2 =
       Inr (store', ?b2\<lparr>Requests := take (nat (Capacity (BConfig ?b2))) (Requests ?b2)\<rparr>)"
    by blast
  then show ?thesis by (simp add: Add_def Let_def)
qed

lemma take_Cons_take: "take n (x # take n ys) = take n (x # ys)"
  by (cases n) simp_all

lemma Add_all_ok:
  assumes "0 \<le> Capacity (BConfig b)"
    and "int (length (Requests b)) \<le> Capacity (BConfig b)"
  shows "\<exists>store'. Add_all T store b reqs =
           Inr (store',
                b\<lparr>Requests := take (nat (Capacity (BConfig b))) (rev (map T reqs) @ Requests b),
                  TotalCount := TotalCount b + int (length reqs)\<rparr>)"
  using assms
proof (induction reqs arbitrary: store b)
  case Nil
  then show ?case by simp
next
  case (Cons r reqs)
  let ?C = "nat (Capacity (BConfig b))"
  let ?b1 = "b\<lparr>Requests := take ?C (T r # Requests b), TotalCount := TotalCount b + 1\<rparr>"
  from Add_ok[OF Cons.prems(1), of T store r] obtain store1 where
    a: "Add T store b r = Inr (store1, ?b1, T r)" by blast
  have c: "0 \<le> Capacity (BConfig ?b1)"
    "int (length (Requests ?b1)) \<le> Capacity (BConfig ?b1)"
    using Cons.prems by auto
  from Cons.IH[OF c, of store1] obtain store2 where
    "Add_all T store1 ?b1 reqs =
       Inr (store2,
            ?b1\<lparr>Requests := take (nat (Capacity (BConfig ?b1)))
                               (rev (map T reqs) @ Requests ?b1),
                 TotalCount := TotalCount ?b1 + int (length reqs)\<rparr>)"
    by blast
  moreover have "take ?C (rev (map T reqs) @ take ?C (T r # Requests b)) =
                 take ?C (rev (map T reqs) @ T r # Requests b)"
    by (simp add: take_Cons_take min_def)
  ultimately show ?case using a by (simp add: add.assoc)
qed

text \<open>
  On one basket object: a basket of capacity at least 1 that holds no request and whose
  counter is 0 receives the requests \<open>reqs\<close> one after the other through the same object.
  The object then holds the snapshots of the last requests, newest first, cut at the
  capacity, and its counter equals the number of requests.
\<close>

lemma Add_all_fresh:
  assumes "1 \<le> Capacity (BConfig basket)"
    and "Requests basket = []" and "TotalCount basket = 0"
  shows "\<exists>store' basket'.
           Add_all ToRequestData store basket reqs = Inr (store', basket') \<and>
           Requests basket' =
             take (nat (Capacity (BConfig basket))) (rev (map ToRequestData reqs)) \<and>
           length (Requests basket') = min (length reqs) (nat (Capacity (BConfig basket))) \<and>
           (reqs \<noteq> [] \<longrightarrow> hd (Requests basket') = ToRequestData (last reqs)) \<and>
           TotalCount basket' = int (length reqs) \<and>
           BConfig basket' = BConfig basket"
proof -
  have c: "0 \<le> Capacity (BConfig basket)"
    "int (length (Requests basket)) \<le> Capacity (BConfig basket)"
    using assms by simp_all
  from Add_all_ok[OF c, of ToRequestData store reqs] obtain store' where
    r: "Add_all ToRequestData store basket reqs =
        Inr (store', basket\<lparr>Requests := take (nat (Capacity (BConfig basket)))
                (rev (map ToRequestData reqs) @ Requests basket),
              TotalCount := TotalCount basket + int (length reqs)\<rparr>)"
    by blast
  have h: "reqs \<noteq> [] \<longrightarrow>
        hd (take (nat (Capacity (BConfig basket))) (rev (map ToRequestData reqs))) =
        ToRequestData (last reqs)"
    using assms(1)
    by (cases "nat (Capacity (BConfig basket))") (auto simp: hd_rev last_map hd_append)
  show ?thesis using r assms h by (simp add: min.commute)
qed

text \<open>
  The document in the store. \<^verbatim>\<open>Add\<close> puts the snapshot in front of the object's list and
  \<^verbatim>\<open>applyLimit\<close>, when the list is longer than the capacity, writes the cut list to the
  store: that list starts with the new snapshot. \<^verbatim>\<open>Add\<close> then sends the update that
  prepends the snapshot. So when the basket read from the store is full, the document ends
  with the new snapshot twice in front and one request more than the capacity.
\<close>

lemma Key_fold_apply_update: "Key (fold apply_update us d) = Key d"
proof (induction us arbitrary: d)
  case Nil
  show ?case by simp
next
  case (Cons u us)
  have "Key (apply_update u d) = Key d" by (cases u) simp_all
  with Cons show ?case by simp
qed

lemma base_Get_Update:
  assumes "base_Get store key = Some d"
  shows "base_Get (base_Update store key us) key = Some (fold apply_update us d)"
  using assms
  by (induction store)
     (auto simp: base_Get_def base_Update_def Key_fold_apply_update split: if_splits)

lemma Add_store_when_full:
  assumes g: "base_Get store (Key basket) = Some basket"
    and c: "1 \<le> Capacity (BConfig basket)"
    and f: "Capacity (BConfig basket) \<le> int (length (Requests basket))"
  shows "\<exists>store' basket' d.
           Add T store basket r = Inr (store', basket', T r) \<and>
           int (length (Requests basket')) = Capacity (BConfig basket) \<and>
           base_Get store' (Key basket) = Some d \<and>
           Requests d = T r # Requests basket' \<and>
           hd (Requests basket') = T r \<and>
           int (length (Requests d)) = Capacity (BConfig basket) + 1"
proof -
  let ?C = "nat (Capacity (BConfig basket))"
  let ?rs = "take ?C (T r # Requests basket)"
  let ?b2 = "basket\<lparr>Requests := T r # Requests basket, TotalCount := TotalCount basket + 1\<rparr>"
  let ?b3 = "?b2\<lparr>Requests := ?rs\<rparr>"
  let ?s1 = "base_Update store (Key basket) [Set_requests ?rs]"
  let ?s2 = "base_Update ?s1 (Key basket) [Prepend_requests (T r), Increment_totalCount 1]"
  have al: "applyLimit store ?b2 = Inr (?s1, ?b3)"
    using c f by (simp add: applyLimit_def slice_def)
  then have a: "Add T store basket r = Inr (?s2, ?b3, T r)"
    by (simp add: Add_def Let_def)
  have g1: "base_Get ?s1 (Key basket) = Some (basket\<lparr>Requests := ?rs\<rparr>)"
    using base_Get_Update[OF g, of "[Set_requests ?rs]"] by simp
  have g2: "base_Get ?s2 (Key basket) =
      Some (basket\<lparr>Requests := T r # ?rs, TotalCount := TotalCount basket + 1\<rparr>)"
    using base_Get_Update[OF g1, of "[Prepend_requests (T r), Increment_totalCount 1]"] by simp
  have l: "int (length ?rs) = Capacity (BConfig basket)" using c f by simp
  have h: "hd ?rs = T r" using c by (cases ?C) simp_all
  show ?thesis using a g2 l h by simp
qed

text \<open>
  C1. A basket of capacity 2 is in the registry as \<^verbatim>\<open>Create\<close> stores it, and three requests
  are captured, each by \<^verbatim>\<open>AcceptBasketRequests\<close>, which reads the basket from the registry
  and calls \<^verbatim>\<open>Add\<close>. With the third request the stored sequence is \<open>r3, r3, r2\<close>: three
  elements, not the two that the capacity allows, with the newest snapshot twice. The same
  document results when the three requests go through one basket object, whose own list
  is \<open>r3, r2\<close>. The counter is 3 in both. The claim asks for a stored sequence of length
  \<open>min 3 2\<close>.
\<close>

theorem stored_sequence_exceeds_capacity:
  "AcceptBasketRequests_all sample_request
       \<lparr>base = [new_basket ''test1'' ''t'' (sample_config 2)], keys = None\<rparr> ''test1''
       [''r1'', ''r2'', ''r3''] =
     Inr \<lparr>base = [(new_basket ''test1'' ''t'' (sample_config 2))
                      \<lparr>Requests := [sample_request ''r3'', sample_request ''r3'',
                                    sample_request ''r2''],
                       TotalCount := 3\<rparr>],
          keys = None\<rparr> \<and>
   Add_all sample_request [new_basket ''test1'' ''t'' (sample_config 2)]
       (new_basket ''test1'' ''t'' (sample_config 2)) [''r1'', ''r2'', ''r3''] =
     Inr ([(new_basket ''test1'' ''t'' (sample_config 2))
             \<lparr>Requests := [sample_request ''r3'', sample_request ''r3'', sample_request ''r2''],
              TotalCount := 3\<rparr>],
          (new_basket ''test1'' ''t'' (sample_config 2))
             \<lparr>Requests := [sample_request ''r3'', sample_request ''r2''], TotalCount := 3\<rparr>) \<and>
   length [sample_request ''r3'', sample_request ''r3'', sample_request ''r2''] \<noteq>
     min (length [''r1'', ''r2'', ''r3'']) (nat (Capacity (sample_config 2)))"
  by (simp add: AcceptBasketRequests_def Get_def base_Get_def Add_def applyLimit_def slice_def
      base_Update_def new_basket_def sample_config_def Let_def)

subsection \<open>\<^verbatim>\<open>Clear\<close> and \<^verbatim>\<open>Update\<close>\<close>

lemma base_Update_frame:
  "list_all2 (\<lambda>d d'. Key d' = Key d \<and> Token d' = Token d \<and> BConfig d' = BConfig d \<and>
                     TotalCount d' = TotalCount d \<and> Responses d' = Responses d)
     store (base_Update store key [Set_requests rs])"
  by (induction store) (simp_all add: base_Update_def)

text \<open>
  C7, as amended. \<^verbatim>\<open>Clear\<close> on a basket whose capacity is a count that the runtime can allocate the
  empty list for (not negative, eight bytes per entry within the memory at hand and within
  \<^verbatim>\<open>maxAlloc\<close>) succeeds and leaves the basket with no stored request, size 0. The counter,
  the token, the configuration, the response map and the key of the basket object are the
  ones it had. In the store, the document of the basket has its request list emptied and
  nothing else changed, and every other document is as it was.
\<close>

theorem Clear_frame:
  assumes "0 \<le> Capacity (BConfig basket)"
    and "8 * Capacity (BConfig basket) \<le> mem"
    and "8 * Capacity (BConfig basket) \<le> maxAlloc"
  shows "\<exists>store' basket'.
           Clear mem store basket = Inr (store', basket') \<and>
           Requests basket' = [] \<and> Size basket' = 0 \<and>
           TotalCount basket' = TotalCount basket \<and>
           Token basket' = Token basket \<and>
           BConfig basket' = BConfig basket \<and>
           Responses basket' = Responses basket \<and>
           Key basket' = Key basket \<and>
           store' = map (\<lambda>d. if Key d = Key basket then d\<lparr>Requests := []\<rparr> else d) store \<and>
           (\<forall>d \<in> set store'. Key d = Key basket \<longrightarrow> Requests d = []) \<and>
           list_all2 (\<lambda>d d'. Key d' = Key d \<and> Token d' = Token d \<and> BConfig d' = BConfig d \<and>
                        TotalCount d' = TotalCount d \<and> Responses d' = Responses d)
             store store'"
proof -
  let ?store' = "base_Update store (Key basket) [Set_requests []]"
  let ?basket' = "basket\<lparr>Requests := []\<rparr>"
  have m: "makeslice mem 8 (Capacity (BConfig basket)) = None"
    using assms by (simp add: makeslice_def)
  have c: "Clear mem store basket = Inr (?store', ?basket')"
    by (simp add: Clear_def m)
  have e: "?store' = map (\<lambda>d. if Key d = Key basket then d\<lparr>Requests := []\<rparr> else d) store"
    by (simp add: base_Update_def)
  have z: "\<forall>d \<in> set ?store'. Key d = Key basket \<longrightarrow> Requests d = []"
    by (auto simp: base_Update_def)
  have f: "list_all2 (\<lambda>d d'. Key d' = Key d \<and> Token d' = Token d \<and> BConfig d' = BConfig d \<and>
                        TotalCount d' = TotalCount d \<and> Responses d' = Responses d)
             store ?store'"
    by (rule base_Update_frame)
  have b: "Requests ?basket' = [] \<and> Size ?basket' = 0 \<and>
           TotalCount ?basket' = TotalCount basket \<and> Token ?basket' = Token basket \<and>
           BConfig ?basket' = BConfig basket \<and> Responses ?basket' = Responses basket \<and>
           Key ?basket' = Key basket"
    by (simp add: Size_def)
  from c e z f b show ?thesis by blast
qed

theorem Clear_frame_witness:
  "0 \<le> Capacity (BConfig sample_basket) \<and>
   8 * Capacity (BConfig sample_basket) \<le> 2 ^ 30 \<and>
   8 * Capacity (BConfig sample_basket) \<le> maxAlloc \<and>
   Key (sample_basket\<lparr>Requests := []\<rparr>) = Key sample_basket \<and>
   Clear (2 ^ 30) [sample_basket] sample_basket =
     Inr ([sample_basket\<lparr>Requests := []\<rparr>], sample_basket\<lparr>Requests := []\<rparr>)"
  using Clear_frame [of sample_basket "2 ^ 30" "[sample_basket]"]
  by (simp add: Clear_def makeslice_def base_Update_def sample_basket_def sample_config_def)

text \<open>
  C7 as stated, for every basket state, fails. \<^verbatim>\<open>Update\<close> accepts a capacity of \<open>2^47\<close>, and on
  the basket it leaves \<^verbatim>\<open>Clear\<close> panics, because the empty list it allocates with that
  capacity is beyond \<^verbatim>\<open>maxAlloc\<close>; the requests stay. A negative capacity panics as well, and
  for a capacity of \<open>2^40\<close> the program runs out of the memory at hand.
\<close>

theorem Clear_counterexample:
  "Update [sample_basket] sample_basket (sample_config (2 ^ 47)) =
     Inr ([sample_basket\<lparr>BConfig := sample_config (2 ^ 47)\<rparr>],
          sample_basket\<lparr>BConfig := sample_config (2 ^ 47)\<rparr>) \<and>
   Clear (2 ^ 30) [sample_basket\<lparr>BConfig := sample_config (2 ^ 47)\<rparr>]
       (sample_basket\<lparr>BConfig := sample_config (2 ^ 47)\<rparr>) = Inl Panic \<and>
   Clear (2 ^ 30) [] (sample_basket\<lparr>BConfig := sample_config (- 1)\<rparr>) = Inl Panic \<and>
   Clear (2 ^ 30) [] (sample_basket\<lparr>BConfig := sample_config (2 ^ 40)\<rparr>) = Inl OutOfMemory"
  by (simp add: Update_def applyLimit_def base_Update_def Clear_def makeslice_def
      sample_basket_def sample_config_def)



subsection \<open>\<^verbatim>\<open>GetRequests\<close>\<close>

lemma go_int_id: "- (2 ^ 63) \<le> x \<Longrightarrow> x < 2 ^ 63 \<Longrightarrow> go_int x = x"
  by (simp add: go_int_def)

text \<open>
  C3, as amended. For \<open>max\<close> and \<open>skip\<close> that are not negative and whose sum fits the
  integer type, \<^verbatim>\<open>GetRequests\<close> succeeds and returns the slice of the stored sequence that
  starts at offset \<open>skip\<close> and has at most \<open>max\<close> elements; the count is the stored size, the
  total is the counter, \<open>has_more\<close> holds exactly when \<open>skip + max\<close> is below the stored
  size, and a \<open>skip\<close> at or beyond the stored size gives an empty slice and no \<open>has_more\<close>.
\<close>

theorem GetRequests_page:
  assumes "0 \<le> max'" and "0 \<le> skip" and "skip + max' < 2 ^ 63"
  shows "\<exists>page.
           GetRequests basket max' skip = Inr page \<and>
           RequestsPage.Requests page = take (nat max') (drop (nat skip) (Requests basket)) \<and>
           length (RequestsPage.Requests page) \<le> nat max' \<and>
           Count page = Size basket \<and>
           RequestsPage.TotalCount page = TotalCount basket \<and>
           (RequestsPage.HasMore page \<longleftrightarrow> skip + max' < Size basket) \<and>
           (Size basket \<le> skip \<longrightarrow>
              RequestsPage.Requests page = [] \<and> \<not> RequestsPage.HasMore page)"
proof -
  have g: "go_int (skip + max') = skip + max'"
    using assms by (intro go_int_id) simp_all
  show ?thesis
  proof (cases "skip < Size basket")
    case True
    then show ?thesis using assms g
      by (auto simp: GetRequests_def Let_def slice_def Size_def min_def nat_diff_distrib nat_add_distrib)
  next
    case False
    then show ?thesis using assms g
      by (auto simp: GetRequests_def Let_def Size_def)
  qed
qed

theorem GetRequests_page_witness:
  "(0::int) \<le> 1 \<and> (0::int) \<le> 1 \<and> (1::int) + 1 < 2 ^ 63 \<and> Size sample_basket \<le> 2 \<and>
   GetRequests sample_basket 1 1 =
     Inr \<lparr>RequestsPage.Requests = [sample_request ''r2''], Count = 2, TotalCount = 3,
          HasMore = False\<rparr> \<and>
   GetRequests sample_basket 1 2 =
     Inr \<lparr>RequestsPage.Requests = [], Count = 2, TotalCount = 3, HasMore = False\<rparr>"
  using GetRequests_page [of 1 1 sample_basket] GetRequests_page [of 1 2 sample_basket]
  by (auto simp: sample_basket_def Size_def)

text \<open>
  C3 as stated, for every \<open>max\<close> and \<open>skip\<close>, fails: a negative \<open>skip\<close> makes the slice
  expression panic, and when \<open>skip + max\<close> exceeds the integer range the wrapped sum is
  negative, so \<open>has_more\<close> is reported although \<open>skip\<close> is at the stored size.
\<close>

theorem GetRequests_counterexample:
  "GetRequests sample_basket 1 (- 1) = Inl Panic \<and>
   GetRequests sample_basket (2 ^ 63 - 1) 2 =
     Inr \<lparr>RequestsPage.Requests = [], Count = 2, TotalCount = 3, HasMore = True\<rparr> \<and>
   \<not> ((2::int) + (2 ^ 63 - 1) < Size sample_basket)"
  by (simp add: GetRequests_def Let_def slice_def Size_def sample_basket_def go_int_def)

subsection \<open>\<^verbatim>\<open>FindRequests\<close>\<close>

lemma FindRequests_loop_Requests:
  assumes "int (length result) < max'" and "0 \<le> skipped"
  shows "RequestsQueryPage.Requests
           (FindRequests_loop query in' max' skip n index rest result skipped) =
         result @ take (nat max' - length result)
                    (drop (nat (skip - skipped)) (filter (\<lambda>r. Matches r query in') rest))"
  using assms
proof (induction rest arbitrary: result skipped index)
  case Nil
  then show ?case by simp
next
  case (Cons request rest)
  show ?case
  proof (cases "Matches request query in'")
    case False
    with Cons show ?thesis by (simp add: Let_def)
  next
    case m: True
    show ?thesis
    proof (cases "skipped < skip")
      case True
      then have "nat (skip - skipped) = Suc (nat (skip - (skipped + 1)))"
        using Cons.prems by linarith
      with Cons.prems True m
        Cons.IH[of result "skipped + 1" "index + 1"]
      show ?thesis by (simp add: Let_def)
    next
      case False
      then have z: "nat (skip - skipped) = 0" by simp
      show ?thesis
      proof (cases "int (length (result @ [request])) = max'")
        case True
        then have "nat max' - length result = Suc 0" by (simp add: nat_diff_distrib)
        with True False m z show ?thesis by (simp add: Let_def)
      next
        case ne: False
        then have lt: "int (length (result @ [request])) < max'" using Cons.prems by simp
        have "nat max' - length result = Suc (nat max' - length (result @ [request]))"
          using lt by simp
        with ne False m z Cons.IH[OF lt Cons.prems(2), of "index + 1"]
        show ?thesis by (simp add: Let_def)
      qed
    qed
  qed
qed

lemma FindRequests_loop_HasMore:
  assumes "int (length result) < max'" and "0 \<le> skipped"
    and "n = index + int (length rest)"
  shows "RequestsQueryPage.HasMore
           (FindRequests_loop query in' max' skip n index rest result skipped) \<longleftrightarrow>
         (\<exists>k < length rest.
            length (filter (\<lambda>r. Matches r query in') (take k rest)) =
            nat (skip - skipped) + (nat max' - length result))"
  using assms
proof (induction rest arbitrary: result skipped index)
  case Nil
  then show ?case by simp
next
  case (Cons request rest)
  let ?M = "\<lambda>r. Matches r query in'"
  let ?need = "\<lambda>skipped result. nat (skip - skipped) + (nat max' - length result)"
  have pos: "0 < ?need skipped result" using Cons.prems by simp
  have n': "n = (index + 1) + int (length rest)" using Cons.prems by simp
  have split: "\<And>c. (\<exists>k < length (request # rest). length (filter ?M (take k (request # rest))) = c) \<longleftrightarrow>
      (c = 0 \<or> (\<exists>k < length rest. length (filter ?M (take (Suc k) (request # rest))) = c))"
  proof -
    fix c
    show "(\<exists>k < length (request # rest). length (filter ?M (take k (request # rest))) = c) \<longleftrightarrow>
      (c = 0 \<or> (\<exists>k < length rest. length (filter ?M (take (Suc k) (request # rest))) = c))"
      (is "?L \<longleftrightarrow> ?R")
    proof
      assume ?L
      then obtain k where k: "k < length (request # rest)"
        "length (filter ?M (take k (request # rest))) = c" by blast
      show ?R
      proof (cases k)
        case 0
        with k show ?thesis by simp
      next
        case (Suc j)
        with k show ?thesis by auto
      qed
    next
      assume ?R
      then show ?L
      proof
        assume "c = 0"
        then show ?L by (intro exI[of _ 0]) simp
      next
        assume "\<exists>k < length rest. length (filter ?M (take (Suc k) (request # rest))) = c"
        then obtain k where "k < length rest" "length (filter ?M (take (Suc k) (request # rest))) = c"
          by blast
        then show ?L by (intro exI[of _ "Suc k"]) simp
      qed
    qed
  qed
  show ?case
  proof (cases "Matches request query in'")
    case False
    with Cons.prems pos Cons.IH[OF Cons.prems(1,2) n'] show ?thesis
      unfolding split by (simp add: Let_def)
  next
    case m: True
    show ?thesis
    proof (cases "skipped < skip")
      case True
      then have e: "nat (skip - skipped) = Suc (nat (skip - (skipped + 1)))"
        using Cons.prems by linarith
      have "0 \<le> skipped + 1" using Cons.prems by simp
      from Cons.IH[OF Cons.prems(1) this n'] True m Cons.prems pos e show ?thesis
        unfolding split by (simp add: Let_def)
    next
      case False
      then have z: "nat (skip - skipped) = 0" by simp
      show ?thesis
      proof (cases "int (length (result @ [request])) = max'")
        case True
        then have one: "nat max' - length result = Suc 0" by (simp add: nat_diff_distrib)
        have "index < n - 1 \<longleftrightarrow> rest \<noteq> []" using Cons.prems by auto
        moreover have "(\<exists>k<length rest. length (filter ?M (take k rest)) = 0) \<longleftrightarrow> rest \<noteq> []"
          by (auto intro: exI[of _ 0])
        ultimately show ?thesis using True False m z one
          unfolding split by (simp add: Let_def)
      next
        case ne: False
        then have lt: "int (length (result @ [request])) < max'" using Cons.prems by simp
        have s: "nat max' - length result = Suc (nat max' - length (result @ [request]))"
          using lt by simp
        from Cons.IH[OF lt Cons.prems(2) n'] ne False m z s show ?thesis
          unfolding split by (simp add: Let_def)
      qed
    qed
  qed
qed

lemma Contains_Nil: "Contains [] substr \<longleftrightarrow> substr = []"
  by (simp add: Contains_def)

lemma Contains_Cons: "Contains (c # s) substr \<longleftrightarrow> prefix substr (c # s) \<or> Contains s substr"
  by (cases substr) (auto simp: Contains_def sublist_Cons_right)

lemma take_drop_append_enough:
  assumes "length xs = s + m"
  shows "take m (drop s (xs @ ys)) = take m (drop s xs)"
  using assms by simp

text \<open>
  C4, as amended. For \<open>max\<close> at least 1 and such that the runtime can allocate a result
  list of that capacity (eight bytes per entry within the memory at hand and within
  \<^verbatim>\<open>maxAlloc\<close>), \<^verbatim>\<open>FindRequests\<close> succeeds. A snapshot counts as a match by \<open>Matches\<close>: the
  query is a substring of the body, of the header block, of the query string, or of any of
  them, as the selector says. The page holds the matches of the stored sequence in stored
  order, without the first \<open>skip\<close> of them (matches, not items), and at most \<open>max\<close> of
  them. \<open>has_more\<close> holds exactly when a proper prefix of the sequence already contains
  \<open>skip + max\<close> matches, that is when the scan collected its last match before the last
  item and left items unscanned; it is false when the scan reached the end. The scan stops
  there: whatever follows a prefix with \<open>skip + max\<close> matches has no influence on the page.
\<close>

theorem FindRequests_page:
  assumes "1 \<le> max'" and "8 * max' \<le> mem" and "8 * max' \<le> maxAlloc"
  shows "\<exists>page.
           FindRequests mem basket query in' max' skip = Inr page \<and>
           RequestsQueryPage.Requests page =
             take (nat max') (drop (nat skip)
               (filter (\<lambda>r. Matches r query in') (Requests basket))) \<and>
           length (RequestsQueryPage.Requests page) \<le> nat max' \<and>
           (RequestsQueryPage.HasMore page \<longleftrightarrow>
              (\<exists>k < length (Requests basket).
                 length (filter (\<lambda>r. Matches r query in') (take k (Requests basket))) =
                 nat skip + nat max')) \<and>
           (\<forall>k more.
              length (filter (\<lambda>r. Matches r query in') (take k (Requests basket))) =
                nat skip + nat max' \<longrightarrow>
              (\<exists>page'.
                 FindRequests mem (basket\<lparr>Requests := take k (Requests basket) @ more\<rparr>)
                   query in' max' skip = Inr page' \<and>
                 RequestsQueryPage.Requests page' = RequestsQueryPage.Requests page))"
proof -
  let ?M = "\<lambda>r. Matches r query in'"
  let ?rs = "Requests basket"
  have l: "int (length ([]::RequestData list)) < max'" using assms by simp
  have R: "\<And>rs. RequestsQueryPage.Requests
              (FindRequests_loop query in' max' skip (int (length rs)) 0 rs [] 0) =
            take (nat max') (drop (nat skip) (filter ?M rs))"
    using FindRequests_loop_Requests[OF l, of 0 query in' skip] by simp
  have H: "RequestsQueryPage.HasMore
              (FindRequests_loop query in' max' skip (int (length ?rs)) 0 ?rs [] 0) \<longleftrightarrow>
           (\<exists>k < length ?rs. length (filter ?M (take k ?rs)) = nat skip + nat max')"
    using FindRequests_loop_HasMore[OF l, of 0 "int (length ?rs)" 0 ?rs query in' skip] by simp
  have E: "take (nat max') (drop (nat skip) (filter ?M (take k ?rs @ more))) =
           take (nat max') (drop (nat skip) (filter ?M ?rs))"
    if k: "length (filter ?M (take k ?rs)) = nat skip + nat max'" for k more
  proof -
    have "filter ?M ?rs = filter ?M (take k ?rs) @ filter ?M (drop k ?rs)"
      by (metis append_take_drop_id filter_append)
    then show ?thesis using k by (simp add: take_drop_append_enough)
  qed
  have F: "\<And>b. FindRequests mem b query in' max' skip =
             Inr (FindRequests_loop query in' max' skip (int (length (Requests b))) 0
                    (Requests b) [] 0)"
    using assms by (simp add: FindRequests_def makeslice_def)
  have S: "RequestsQueryPage.Requests
             (FindRequests_loop query in' max' skip (int (length (take k ?rs @ more))) 0
                (take k ?rs @ more) [] 0) =
           take (nat max') (drop (nat skip) (filter ?M ?rs))"
    if "length (filter ?M (take k ?rs)) = nat skip + nat max'" for k more
    using E[OF that, of more] R[of "take k ?rs @ more"] by simp
  show ?thesis
    unfolding F using R[of ?rs] H S
    by (simp del: length_append length_take add: length_take[of "nat max'"])
qed

theorem FindRequests_page_witness:
  "(1::int) \<le> 1 \<and> (8::int) * 1 \<le> 2 ^ 30 \<and> (8::int) * 1 \<le> maxAlloc \<and>
   length (filter (\<lambda>r. Matches r ''r'' ''body'') (take 1 (Requests sample_basket))) =
     nat 0 + nat 1 \<and>
   FindRequests (2 ^ 30) sample_basket ''r'' ''body'' 1 0 =
     Inr \<lparr>RequestsQueryPage.Requests = [sample_request ''r3''], HasMore = True\<rparr> \<and>
   FindRequests (2 ^ 30) sample_basket ''r2'' ''body'' 1 0 =
     Inr \<lparr>RequestsQueryPage.Requests = [sample_request ''r2''], HasMore = False\<rparr> \<and>
   FindRequests (2 ^ 30) sample_basket ''R2'' ''body'' 1 0 =
     Inr \<lparr>RequestsQueryPage.Requests = [], HasMore = False\<rparr> \<and>
   FindRequests (2 ^ 30) sample_basket ''r'' ''headers'' 5 0 =
     Inr \<lparr>RequestsQueryPage.Requests = [], HasMore = False\<rparr> \<and>
   FindRequests (2 ^ 30) sample_basket ''r'' ''any'' 5 1 =
     Inr \<lparr>RequestsQueryPage.Requests = [sample_request ''r2''], HasMore = False\<rparr>"
  using FindRequests_page [of 1 "2 ^ 30" sample_basket "''r''" "''body''" 0]
    FindRequests_page [of 1 "2 ^ 30" sample_basket "''r2''" "''body''" 0]
  by (simp add: FindRequests_def makeslice_def sample_basket_def sample_request_def
      Matches_def Contains_Nil Contains_Cons)

text \<open>
  C4 as stated, for every \<open>max\<close>, fails. At \<open>max = 0\<close> the length of the result is compared
  with \<open>max\<close> only after an item was handled, so the first match makes the result longer
  than \<open>max\<close>, the test for the early exit never holds, and every match is returned. A
  negative \<open>max\<close> and a \<open>max\<close> beyond what \<^verbatim>\<open>make\<close> accepts panic before the scan starts, and
  a \<open>max\<close> whose result list does not fit the memory ends the program.
\<close>

theorem FindRequests_counterexample:
  "FindRequests (2 ^ 30) sample_basket ''r'' ''body'' 0 0 =
     Inr \<lparr>RequestsQueryPage.Requests = [sample_request ''r3'', sample_request ''r2''],
          HasMore = False\<rparr> \<and>
   FindRequests (2 ^ 30) sample_basket ''r'' ''body'' (- 1) 0 = Inl Panic \<and>
   FindRequests (2 ^ 30) sample_basket ''r'' ''body'' (2 ^ 45 + 1) 0 = Inl Panic \<and>
   FindRequests (2 ^ 30) sample_basket ''r'' ''body'' (2 ^ 63 - 1) 0 = Inl Panic \<and>
   FindRequests (2 ^ 30) sample_basket ''r'' ''body'' (2 ^ 40) 0 = Inl OutOfMemory"
  by (simp add: FindRequests_def makeslice_def sample_basket_def sample_request_def
      Matches_def Contains_Nil Contains_Cons)

subsection \<open>\<^verbatim>\<open>FindNames\<close>\<close>

text \<open>
  C5. The registry holds the basket \<open>test1\<close>, whose name contains the query \<open>test\<close>.
  \<^verbatim>\<open>FindNames\<close> with room for ten names returns no name and no \<open>has_more\<close>. The claim asks
  for the names that contain the query.
\<close>

theorem FindNames_misses_matching_name:
  "Get sample_db ''test1'' = Some sample_basket \<and> Contains ''test1'' ''test'' \<and>
   FindNames (2 ^ 30) sample_db ''test'' 10 0 =
     Inr \<lparr>Names = [], BasketNamesQueryPage.HasMore = False\<rparr>"
  by (simp add: FindNames_def makeslice_def Get_def base_Get_def sample_db_def sample_basket_def
      Contains_Nil Contains_Cons)

subsection \<open>Access control\<close>

lemma authorizeRequest_always: "authorizeRequest r publicAPI config"
  by (simp add: authorizeRequest_def)

text \<open>
  C2. The server runs in restricted mode and a request to create the basket \<open>abc\<close> comes
  without the master token. \<^verbatim>\<open>authorizeRequest\<close> lets it through: the reply is 201 Created
  with the token of the new basket, and the store holds the basket. The claim asks for an
  Unauthorized reply and no basket.
\<close>

theorem CreateBasket_restricted_without_token:
  "Mode (sample_server ModeRestricted) = ModeRestricted \<and>
   header_Authorization (sample_http ''abc'' [] []) \<noteq> MasterToken (sample_server ModeRestricted) \<and>
   CreateBasket sample_externals (sample_server ModeRestricted) \<lparr>base = [], keys = None\<rparr>
       (sample_http ''abc'' [] []) =
     Inr (\<lparr>base = [new_basket ''abc'' ''m3dYcCkbJxEHGVnQ7ZpLqWtRs5uA9oF2hTiz'' (sample_config 200)],
           keys = None\<rparr>,
          \<lparr>status = StatusCreated,
           body = AuthJSON \<lparr>BasketAuth.Token = ''m3dYcCkbJxEHGVnQ7ZpLqWtRs5uA9oF2hTiz''\<rparr>\<rparr>)"
  by (simp add: CreateBasket_def authorizeRequest_def sample_http_def sample_server_def
      sample_externals_def validBasketName_def basketNameChars_def read_body_def Create_def makeslice_def
      base_Insert_def base_Get_def new_basket_def sample_config_def)

subsection \<open>Validation of configurations\<close>

lemma validateBasketConfig_iff:
  "validateBasketConfig ext sc c \<noteq> None \<longleftrightarrow>
     Capacity c < 1 \<or> Capacity c > MaxCapacity sc \<or>
     (ForwardURL c \<noteq> [] \<and> \<not> ParseRequestURI ext (ForwardURL c))"
  by (simp add: validateBasketConfig_def)

lemma validateResponseConfig_iff:
  "validateResponseConfig ext rc \<noteq> None \<longleftrightarrow>
     Status rc < 100 \<or> 599 < Status rc \<or>
     (IsTemplate rc \<and> ResponseConfig.Body rc \<noteq> [] \<and> \<not> template_Parse ext (ResponseConfig.Body rc))"
  by (auto simp: validateResponseConfig_def)

text \<open>
  C8. \<^verbatim>\<open>validateBasketConfig\<close> returns an error exactly for a capacity below 1, a capacity above
  the server-wide maximum, or a non-empty forward URL that does not parse;
  \<^verbatim>\<open>validateResponseConfig\<close> exactly for a status outside 100..599, or a template flag with
  a non-empty body that does not parse as a template. When the body of a request decodes
  to such a configuration, the handlers that update a basket, create a basket and update a
  response reply 422 Unprocessable Entity and leave the registry as it was.
\<close>

theorem validation_rejects:
  "(validateBasketConfig ext sc c \<noteq> None \<longleftrightarrow>
      Capacity c < 1 \<or> Capacity c > MaxCapacity sc \<or>
      (ForwardURL c \<noteq> [] \<and> \<not> ParseRequestURI ext (ForwardURL c))) \<and>
   (validateResponseConfig ext rc \<noteq> None \<longleftrightarrow>
      Status rc < 100 \<or> 599 < Status rc \<or>
      (IsTemplate rc \<and> ResponseConfig.Body rc \<noteq> [] \<and>
       \<not> template_Parse ext (ResponseConfig.Body rc))) \<and>
   (getAuthorizedBasket db r = Inr (name, basket) \<and>
    read_body 2048 r = Some bytes \<and> bytes \<noteq> [] \<and>
    Unmarshal_config ext bytes (Config basket) = Some c \<and>
    (Capacity c < 1 \<or> Capacity c > MaxCapacity sc \<or>
     (ForwardURL c \<noteq> [] \<and> \<not> ParseRequestURI ext (ForwardURL c))) \<longrightarrow>
    (\<exists>e. UpdateBasket ext sc db r =
            Inr (db, \<lparr>status = StatusUnprocessableEntity, body = ErrorText e\<rparr>))) \<and>
   (param_basket r \<notin> {serviceOldAPIPath, serviceAPIPath, serviceUIPath} \<and>
    validBasketName (param_basket r) \<and>
    read_body 2048 r = Some bytes \<and> bytes \<noteq> [] \<and>
    Unmarshal_config ext bytes
      \<lparr>ForwardURL = [], ProxyResponse = False, ExpandPath = False, InsecureTLS = False,
       Capacity = InitCapacity sc\<rparr> = Some c \<and>
    (Capacity c < 1 \<or> Capacity c > MaxCapacity sc \<or>
     (ForwardURL c \<noteq> [] \<and> \<not> ParseRequestURI ext (ForwardURL c))) \<longrightarrow>
    (\<exists>e. CreateBasket ext sc db r =
            Inr (db, \<lparr>status = StatusUnprocessableEntity, body = ErrorText e\<rparr>))) \<and>
   (getAuthorizedBasket db r = Inr (name, basket) \<and>
    snd (getValidMethod ext r) = None \<and>
    read_body (64 * 1024) r = Some bytes' \<and> bytes' \<noteq> [] \<and>
    Unmarshal_response ext bytes'
      \<lparr>Status = StatusOK, Headers = [], ResponseConfig.Body = [], IsTemplate = False\<rparr> = Some rc \<and>
    (Status rc < 100 \<or> 599 < Status rc \<or>
     (IsTemplate rc \<and> ResponseConfig.Body rc \<noteq> [] \<and>
      \<not> template_Parse ext (ResponseConfig.Body rc))) \<longrightarrow>
    (\<exists>e. UpdateBasketResponse ext sc db r =
            Inr (db, \<lparr>status = StatusUnprocessableEntity, body = ErrorText e\<rparr>)))"
proof (intro conjI impI)
  show "validateBasketConfig ext sc c \<noteq> None \<longleftrightarrow>
      Capacity c < 1 \<or> Capacity c > MaxCapacity sc \<or>
      (ForwardURL c \<noteq> [] \<and> \<not> ParseRequestURI ext (ForwardURL c))"
    by (rule validateBasketConfig_iff)
next
  show "validateResponseConfig ext rc \<noteq> None \<longleftrightarrow>
      Status rc < 100 \<or> 599 < Status rc \<or>
      (IsTemplate rc \<and> ResponseConfig.Body rc \<noteq> [] \<and>
       \<not> template_Parse ext (ResponseConfig.Body rc))"
    by (rule validateResponseConfig_iff)
next
  assume a: "getAuthorizedBasket db r = Inr (name, basket) \<and>
    read_body 2048 r = Some bytes \<and> bytes \<noteq> [] \<and>
    Unmarshal_config ext bytes (Config basket) = Some c \<and>
    (Capacity c < 1 \<or> Capacity c > MaxCapacity sc \<or>
     (ForwardURL c \<noteq> [] \<and> \<not> ParseRequestURI ext (ForwardURL c)))"
  then obtain e where "validateBasketConfig ext sc c = Some e"
    using validateBasketConfig_iff[of ext sc c] by auto
  with a show "\<exists>e. UpdateBasket ext sc db r =
            Inr (db, \<lparr>status = StatusUnprocessableEntity, body = ErrorText e\<rparr>)"
    by (simp add: UpdateBasket_def)
next
  assume a: "param_basket r \<notin> {serviceOldAPIPath, serviceAPIPath, serviceUIPath} \<and>
    validBasketName (param_basket r) \<and>
    read_body 2048 r = Some bytes \<and> bytes \<noteq> [] \<and>
    Unmarshal_config ext bytes
      \<lparr>ForwardURL = [], ProxyResponse = False, ExpandPath = False, InsecureTLS = False,
       Capacity = InitCapacity sc\<rparr> = Some c \<and>
    (Capacity c < 1 \<or> Capacity c > MaxCapacity sc \<or>
     (ForwardURL c \<noteq> [] \<and> \<not> ParseRequestURI ext (ForwardURL c)))"
  then obtain e where "validateBasketConfig ext sc c = Some e"
    using validateBasketConfig_iff[of ext sc c] by auto
  with a show "\<exists>e. CreateBasket ext sc db r =
            Inr (db, \<lparr>status = StatusUnprocessableEntity, body = ErrorText e\<rparr>)"
    by (simp add: CreateBasket_def authorizeRequest_def Let_def)
next
  assume a: "getAuthorizedBasket db r = Inr (name, basket) \<and>
    snd (getValidMethod ext r) = None \<and>
    read_body (64 * 1024) r = Some bytes' \<and> bytes' \<noteq> [] \<and>
    Unmarshal_response ext bytes'
      \<lparr>Status = StatusOK, Headers = [], ResponseConfig.Body = [], IsTemplate = False\<rparr> = Some rc \<and>
    (Status rc < 100 \<or> 599 < Status rc \<or>
     (IsTemplate rc \<and> ResponseConfig.Body rc \<noteq> [] \<and>
      \<not> template_Parse ext (ResponseConfig.Body rc)))"
  then obtain e where "validateResponseConfig ext rc = Some e"
    using validateResponseConfig_iff[of ext rc] by auto
  moreover obtain m where "getValidMethod ext r = (m, None)"
    using a by (cases "getValidMethod ext r") auto
  ultimately show "\<exists>e. UpdateBasketResponse ext sc db r =
            Inr (db, \<lparr>status = StatusUnprocessableEntity, body = ErrorText e\<rparr>)"
    using a by (simp add: UpdateBasketResponse_def defaultResponse_def)
qed

theorem validation_rejects_witness:
  "getAuthorizedBasket sample_db (sample_http ''test1'' ''post'' ''{capacity:0}'') =
     Inr (''test1'', sample_basket) \<and>
   Capacity (sample_config 0) < 1 \<and>
   UpdateBasket sample_externals (sample_server ModePublic) sample_db
       (sample_http ''test1'' ''post'' ''{capacity:0}'') =
     Inr (sample_db,
          \<lparr>status = StatusUnprocessableEntity, body = ErrorText (CapacityNotPositive 0)\<rparr>) \<and>
   CreateBasket sample_externals (sample_server ModePublic) sample_db
       (sample_http ''test1'' ''post'' ''{capacity:0}'') =
     Inr (sample_db,
          \<lparr>status = StatusUnprocessableEntity, body = ErrorText (CapacityNotPositive 0)\<rparr>) \<and>
   UpdateBasketResponse sample_externals (sample_server ModePublic) sample_db
       (sample_http ''test1'' ''post'' ''{status:99}'') =
     Inr (sample_db,
          \<lparr>status = StatusUnprocessableEntity, body = ErrorText (InvalidStatus 99)\<rparr>)"
  using validation_rejects [of sample_externals "sample_server ModePublic" "sample_config 0"
      "\<lparr>Status = 99, Headers = [], ResponseConfig.Body = [], IsTemplate = False\<rparr>"
      sample_db "sample_http ''test1'' ''post'' ''{capacity:0}''" "''test1''" sample_basket
      "''{capacity:0}''" "''{capacity:0}''"]
    validation_rejects [of sample_externals "sample_server ModePublic" "sample_config 0"
      "\<lparr>Status = 99, Headers = [], ResponseConfig.Body = [], IsTemplate = False\<rparr>"
      sample_db "sample_http ''test1'' ''post'' ''{status:99}''" "''test1''" sample_basket
      "''{status:99}''" "''{status:99}''"]
  by (simp add: getAuthorizedBasket_def Get_def base_Get_def sample_db_def sample_http_def
      validBasketName_def basketNameChars_def sample_basket_def sample_config_def
      UpdateBasket_def CreateBasket_def UpdateBasketResponse_def authorizeRequest_def
      read_body_def sample_externals_def sample_server_def Config_def
      validateBasketConfig_def validateResponseConfig_def getValidMethod_def
      ToUpper_ascii_def defaultResponse_def Let_def)

subsection \<open>Basket names\<close>

lemma reserved_names_valid:
  "validBasketName serviceOldAPIPath" "validBasketName serviceAPIPath"
  "validBasketName serviceUIPath"
  by (simp_all add: validBasketName_def basketNameChars_def)

lemma CreateBasket_changes_db:
  assumes "CreateBasket ext sc db r = Inr (db', rep)" and "db' \<noteq> db"
  shows "validBasketName (param_basket r) \<and>
         param_basket r \<notin> {serviceOldAPIPath, serviceAPIPath, serviceUIPath} \<and>
         status rep = StatusCreated"
  using assms
  by (auto simp: CreateBasket_def Create_def makeslice_def Let_def
      split: if_splits option.splits sum.splits prod.splits)

text \<open>
  C9. \<^verbatim>\<open>CreateBasket\<close> replies 403 to a name equal to one of the service's own path segments
  (\<open>baskets\<close>, \<open>api\<close>, \<open>web\<close>) and 400 to a name that does not match the pattern, and leaves
  the registry as it was in both cases. A name matches the pattern when it has 1 to 250
  characters, all of them letters, digits, underscores, hyphens or dots. Whenever the
  handler changes the registry, the name matches the pattern, is not reserved, and the
  reply is 201.
\<close>

theorem CreateBasket_name_checks:
  "(param_basket r \<in> {serviceOldAPIPath, serviceAPIPath, serviceUIPath} \<longrightarrow>
      CreateBasket ext sc db r =
        Inr (db, \<lparr>status = StatusForbidden, body = ErrorText (ReservedName (param_basket r))\<rparr>)) \<and>
   (\<not> validBasketName (param_basket r) \<longrightarrow>
      CreateBasket ext sc db r =
        Inr (db, \<lparr>status = StatusBadRequest, body = ErrorText InvalidName\<rparr>)) \<and>
   (validBasketName n \<longleftrightarrow>
      1 \<le> length n \<and> length n \<le> 250 \<and>
      set n \<subseteq> set ''abcdefghijklmnopqrstuvwxyzABCDEFGHIJKLMNOPQRSTUVWXYZ0123456789_-.'') \<and>
   (CreateBasket ext sc db r = Inr (db', rep) \<and> db' \<noteq> db \<longrightarrow>
      validBasketName (param_basket r) \<and>
      param_basket r \<notin> {serviceOldAPIPath, serviceAPIPath, serviceUIPath} \<and>
      status rep = StatusCreated)"
proof -
  have reserved: "CreateBasket ext sc db r =
        Inr (db, \<lparr>status = StatusForbidden, body = ErrorText (ReservedName (param_basket r))\<rparr>)"
    if "param_basket r \<in> {serviceOldAPIPath, serviceAPIPath, serviceUIPath}"
    using that by (auto simp: CreateBasket_def authorizeRequest_def)
  have invalid: "CreateBasket ext sc db r =
        Inr (db, \<lparr>status = StatusBadRequest, body = ErrorText InvalidName\<rparr>)"
    if inv: "\<not> validBasketName (param_basket r)"
  proof -
    have "param_basket r \<notin> {serviceOldAPIPath, serviceAPIPath, serviceUIPath}"
      using inv reserved_names_valid by auto
    with inv show ?thesis by (simp add: CreateBasket_def authorizeRequest_def)
  qed
  have pattern: "validBasketName n \<longleftrightarrow>
      1 \<le> length n \<and> length n \<le> 250 \<and>
      set n \<subseteq> set ''abcdefghijklmnopqrstuvwxyzABCDEFGHIJKLMNOPQRSTUVWXYZ0123456789_-.''"
    unfolding validBasketName_def basketNameChars_def by blast
  show ?thesis
    using reserved invalid pattern CreateBasket_changes_db[of ext sc db r db' rep] by blast
qed

theorem CreateBasket_name_checks_witness:
  "param_basket (sample_http ''web'' [] []) \<in> {serviceOldAPIPath, serviceAPIPath, serviceUIPath} \<and>
   CreateBasket sample_externals (sample_server ModePublic) sample_db (sample_http ''web'' [] []) =
     Inr (sample_db, \<lparr>status = StatusForbidden, body = ErrorText (ReservedName ''web'')\<rparr>) \<and>
   \<not> validBasketName (param_basket (sample_http ''my basket'' [] [])) \<and>
   CreateBasket sample_externals (sample_server ModePublic) sample_db
       (sample_http ''my basket'' [] []) =
     Inr (sample_db, \<lparr>status = StatusBadRequest, body = ErrorText InvalidName\<rparr>) \<and>
   validBasketName ''test2'' \<and>
   status (snd (projr (CreateBasket sample_externals (sample_server ModePublic) sample_db
       (sample_http ''test2'' [] [])))) = StatusCreated"
  using CreateBasket_name_checks [of "sample_http ''web'' [] []" sample_externals
      "sample_server ModePublic" sample_db "''test2''"]
    CreateBasket_name_checks [of "sample_http ''my basket'' [] []" sample_externals
      "sample_server ModePublic" sample_db "''test2''"]
    CreateBasket_name_checks [of "sample_http ''test2'' [] []" sample_externals
      "sample_server ModePublic" sample_db "''test2''"
      "fst (projr (CreateBasket sample_externals (sample_server ModePublic) sample_db
         (sample_http ''test2'' [] [])))"
      "snd (projr (CreateBasket sample_externals (sample_server ModePublic) sample_db
         (sample_http ''test2'' [] [])))"]
  by (simp add: sample_http_def validBasketName_def basketNameChars_def CreateBasket_def
      authorizeRequest_def read_body_def sample_server_def sample_externals_def Create_def makeslice_def
      base_Insert_def base_Get_def sample_db_def sample_basket_def Let_def)

subsection \<open>Method names of response configurations\<close>

lemma getValidMethod_eq:
  "getValidMethod ext r =
     (ToUpper ext (param_method r),
      if ToUpper ext (param_method r) \<in> standard_methods then None
      else Some (UnknownMethod (ToUpper ext (param_method r))))"
  by (simp add: getValidMethod_def standard_methods_def Let_def)

lemma base_Update_response_keys:
  assumes "\<forall>d \<in> set store. dom (Responses d) \<subseteq> S"
    and "\<forall>u \<in> set us. case u of Set_response m x \<Rightarrow> m \<in> S | _ \<Rightarrow> True"
  shows "\<forall>d \<in> set (base_Update store key us). dom (Responses d) \<subseteq> S"
proof -
  have step: "dom (Responses (fold apply_update us d)) \<subseteq> S"
    if "dom (Responses d) \<subseteq> S" for d
    using that assms(2)
  proof (induction us arbitrary: d)
    case Nil
    then show ?case by simp
  next
    case (Cons u us)
    have "dom (Responses (apply_update u d)) \<subseteq> S"
      using Cons.prems by (cases u) auto
    then show ?case using Cons by simp
  qed
  show ?thesis
  proof
    fix d
    assume "d \<in> set (base_Update store key us)"
    then obtain d0 where d0: "d0 \<in> set store"
      and d: "d = (if Key d0 = key then fold apply_update us d0 else d0)"
      by (auto simp: base_Update_def)
    have "dom (Responses d0) \<subseteq> S" using assms(1) d0 by blast
    then show "dom (Responses d) \<subseteq> S" using step[of d0] d by simp
  qed
qed

lemma applyLimit_response_keys:
  assumes "applyLimit store b = Inr (store', b')"
    and "\<forall>d \<in> set store. dom (Responses d) \<subseteq> S"
  shows "\<forall>d \<in> set store'. dom (Responses d) \<subseteq> S"
proof (cases "int (length (Requests b)) > Capacity (BConfig b)")
  case False
  with assms show ?thesis by (simp add: applyLimit_def)
next
  case True
  with assms(1) obtain rs where "store' = base_Update store (Key b) [Set_requests rs]"
    by (auto simp: applyLimit_def split: sum.splits)
  then show ?thesis using base_Update_response_keys[OF assms(2), of "[Set_requests rs]" "Key b"]
    by simp
qed

lemma UpdateBasketResponse_keys:
  assumes "response_keys_standard db" and "UpdateBasketResponse ext sc db r = Inr (db', rep)"
  shows "response_keys_standard db'"
proof -
  have set_ok: "response_keys_standard
          (db\<lparr>base := base_Update (base db) (Key basket) [Set_response m response]\<rparr>)"
    if "m \<in> standard_methods" for basket m response
  proof -
    have "\<forall>d \<in> set (base_Update (base db) (Key basket) [Set_response m response]).
            dom (Responses d) \<subseteq> standard_methods"
      using assms(1) that
      by (intro base_Update_response_keys) (simp_all add: response_keys_standard_def)
    then show ?thesis by (simp add: response_keys_standard_def)
  qed
  show ?thesis
    using assms set_ok
    by (auto simp: UpdateBasketResponse_def getValidMethod_eq SetResponse_def
        split: sum.splits prod.splits option.splits if_splits)
qed

lemma UpdateBasket_keys:
  assumes "response_keys_standard db" and "UpdateBasket ext sc db r = Inr (db', rep)"
  shows "response_keys_standard db'"
proof (cases "db' = db")
  case True
  with assms show ?thesis by simp
next
  case False
  with assms(2) have "\<exists>basket config store1 basket1.
      applyLimit (base db) (basket\<lparr>BConfig := config\<rparr>) = Inr (store1, basket1) \<and>
      db' = db\<lparr>base := base_Update store1 (Key basket1) [Set_config config]\<rparr>"
    by (auto simp: UpdateBasket_def Update_def
        split: sum.splits prod.splits option.splits if_splits)
  then obtain basket config store1 basket1 where
    a: "applyLimit (base db) (basket\<lparr>BConfig := config\<rparr>) = Inr (store1, basket1)"
    and d: "db' = db\<lparr>base := base_Update store1 (Key basket1) [Set_config config]\<rparr>"
    by blast
  have "\<forall>d \<in> set store1. dom (Responses d) \<subseteq> standard_methods"
    using applyLimit_response_keys[OF a] assms(1) by (simp add: response_keys_standard_def)
  then have "\<forall>d \<in> set (base_Update store1 (Key basket1) [Set_config config]).
          dom (Responses d) \<subseteq> standard_methods"
    by (intro base_Update_response_keys) simp_all
  then show ?thesis using d by (simp add: response_keys_standard_def)
qed

lemma CreateBasket_keys:
  assumes "response_keys_standard db" and "CreateBasket ext sc db r = Inr (db', rep)"
  shows "response_keys_standard db'"
proof (cases "db' = db")
  case True
  with assms show ?thesis by simp
next
  case False
  with assms(2) have "\<exists>d. base db' = base db @ [d] \<and> Responses d = Map.empty"
    by (auto simp: CreateBasket_def Create_def makeslice_def base_Insert_def Let_def
        split: sum.splits prod.splits option.splits if_splits)
  then obtain d where "base db' = base db @ [d]" "Responses d = Map.empty"
    by blast
  then show ?thesis using assms(1) by (auto simp: response_keys_standard_def)
qed

text \<open>
  C10. \<^verbatim>\<open>getValidMethod\<close> returns the upper-cased method parameter, and no error exactly when
  that is one of the nine standard tokens. For any other method the handlers that get and
  update a basket's response reply 400 with the registry untouched, so the response map
  is neither read nor written. A registry in which every response map has only standard
  tokens as keys stays so under the handlers that update a response, get a response,
  update a basket and create a basket.
\<close>

theorem method_validation:
  "fst (getValidMethod ext r) = ToUpper ext (param_method r) \<and>
   (snd (getValidMethod ext r) = None \<longleftrightarrow>
      ToUpper ext (param_method r) \<in>
        {''GET'', ''HEAD'', ''POST'', ''PUT'', ''PATCH'', ''DELETE'', ''CONNECT'', ''OPTIONS'',
         ''TRACE''}) \<and>
   (getAuthorizedBasket db r = Inr (name, basket) \<and>
    ToUpper ext (param_method r) \<notin> standard_methods \<longrightarrow>
      GetBasketResponse ext sc db r =
        Inr (db, \<lparr>status = StatusBadRequest,
                  body = ErrorText (UnknownMethod (ToUpper ext (param_method r)))\<rparr>) \<and>
      UpdateBasketResponse ext sc db r =
        Inr (db, \<lparr>status = StatusBadRequest,
                  body = ErrorText (UnknownMethod (ToUpper ext (param_method r)))\<rparr>)) \<and>
   (response_keys_standard db \<and> UpdateBasketResponse ext sc db r = Inr (db', rep) \<longrightarrow>
      response_keys_standard db') \<and>
   (response_keys_standard db \<and> GetBasketResponse ext sc db r = Inr (db', rep) \<longrightarrow>
      db' = db) \<and>
   (response_keys_standard db \<and> UpdateBasket ext sc db r = Inr (db', rep) \<longrightarrow>
      response_keys_standard db') \<and>
   (response_keys_standard db \<and> CreateBasket ext sc db r = Inr (db', rep) \<longrightarrow>
      response_keys_standard db')"
proof -
  have a: "fst (getValidMethod ext r) = ToUpper ext (param_method r)"
    by (simp add: getValidMethod_eq)
  have b: "snd (getValidMethod ext r) = None \<longleftrightarrow>
      ToUpper ext (param_method r) \<in>
        {''GET'', ''HEAD'', ''POST'', ''PUT'', ''PATCH'', ''DELETE'', ''CONNECT'', ''OPTIONS'',
         ''TRACE''}"
    by (simp add: getValidMethod_eq standard_methods_def)
  have c: "GetBasketResponse ext sc db r =
        Inr (db, \<lparr>status = StatusBadRequest,
                  body = ErrorText (UnknownMethod (ToUpper ext (param_method r)))\<rparr>) \<and>
      UpdateBasketResponse ext sc db r =
        Inr (db, \<lparr>status = StatusBadRequest,
                  body = ErrorText (UnknownMethod (ToUpper ext (param_method r)))\<rparr>)"
    if "getAuthorizedBasket db r = Inr (name, basket)"
      and "ToUpper ext (param_method r) \<notin> standard_methods"
    using that
    by (simp add: GetBasketResponse_def UpdateBasketResponse_def getValidMethod_eq)
  have g: "db' = db" if "GetBasketResponse ext sc db r = Inr (db', rep)"
    using that
    by (auto simp: GetBasketResponse_def Let_def
        split: sum.splits prod.splits option.splits if_splits)
  show ?thesis
    using a b c g UpdateBasketResponse_keys[of db ext sc r db' rep]
      UpdateBasket_keys[of db ext sc r db' rep] CreateBasket_keys[of db ext sc r db' rep]
    by blast
qed

theorem method_validation_witness:
  "getAuthorizedBasket sample_db (sample_http ''test1'' ''brew'' ''{status:201}'') =
     Inr (''test1'', sample_basket) \<and>
   ToUpper sample_externals (param_method (sample_http ''test1'' ''brew'' ''{status:201}''))
     \<notin> standard_methods \<and>
   GetBasketResponse sample_externals (sample_server ModePublic) sample_db
       (sample_http ''test1'' ''brew'' ''{status:201}'') =
     Inr (sample_db, \<lparr>status = StatusBadRequest, body = ErrorText (UnknownMethod ''BREW'')\<rparr>) \<and>
   UpdateBasketResponse sample_externals (sample_server ModePublic) sample_db
       (sample_http ''test1'' ''brew'' ''{status:201}'') =
     Inr (sample_db, \<lparr>status = StatusBadRequest, body = ErrorText (UnknownMethod ''BREW'')\<rparr>) \<and>
   response_keys_standard sample_db \<and>
   snd (getValidMethod sample_externals (sample_http ''test1'' ''put'' ''{status:201}'')) = None \<and>
   status (snd (projr (UpdateBasketResponse sample_externals (sample_server ModePublic) sample_db
       (sample_http ''test1'' ''put'' ''{status:201}'')))) = StatusNoContent \<and>
   response_keys_standard
     (fst (projr (UpdateBasketResponse sample_externals (sample_server ModePublic) sample_db
        (sample_http ''test1'' ''put'' ''{status:201}''))))"
  using method_validation [of sample_externals "sample_http ''test1'' ''brew'' ''{status:201}''"
      sample_db "''test1''" sample_basket "sample_server ModePublic" sample_db
      "\<lparr>status = StatusBadRequest, body = ErrorText (UnknownMethod ''BREW'')\<rparr>"]
    method_validation [of sample_externals "sample_http ''test1'' ''put'' ''{status:201}''"
      sample_db "''test1''" sample_basket "sample_server ModePublic"
      "fst (projr (UpdateBasketResponse sample_externals (sample_server ModePublic) sample_db
        (sample_http ''test1'' ''put'' ''{status:201}'')))"
      "snd (projr (UpdateBasketResponse sample_externals (sample_server ModePublic) sample_db
        (sample_http ''test1'' ''put'' ''{status:201}'')))"]
  by (simp add: getAuthorizedBasket_def Get_def base_Get_def sample_db_def sample_http_def
      validBasketName_def basketNameChars_def sample_basket_def sample_config_def
      GetBasketResponse_def UpdateBasketResponse_def read_body_def sample_externals_def
      sample_server_def validateResponseConfig_def getValidMethod_def ToUpper_ascii_def
      defaultResponse_def Let_def standard_methods_def response_keys_standard_def
      SetResponse_def base_Update_def)

end
